theory Spec2Isabelle
  imports Complex_Main
begin

section \<open>Astronaut survival API: risk scorer, feedback generator, train and predict\<close>

text \<open>
  The program is \<^verbatim>\<open>src/main.py\<close>. Its two heuristics, \<^verbatim>\<open>calculate_risk_level\<close> and
  \<^verbatim>\<open>generate_feedback\<close>, are pure functions of the raw observation and of the classifier's
  output; \<^verbatim>\<open>train\<close>, \<^verbatim>\<open>predict\<close>, \<^verbatim>\<open>predict_json\<close> and \<^verbatim>\<open>model_info\<close> read and
  write five module globals and three files.

  An observation is a Python dict from field names to numbers. JSON numbers are Python ints
  and floats; both are embedded in \<^typ>\<open>real\<close>. The thresholds the code compares with
  (18, 19.5, 23.5, 25, 1.0, 0.5, 7, 3, ...) are written as the source writes them.
\<close>

type_synonym observation = "string \<rightharpoonup> real"

subsection \<open>Risk scorer (\<^verbatim>\<open>calculate_risk_level\<close>, lines 133-163)\<close>

text \<open>
  The source accumulates \<^verbatim>\<open>risk_score\<close> in a local variable through five \<^verbatim>\<open>if\<close>
  statements, then maps it to a tier. \<open>risk_score\<close> is that accumulation, statement by
  statement; \<open>calculate_risk_level\<close> is the final \<^verbatim>\<open>if/elif\<close> chain. The parameter
  \<open>confidence\<close> is unused by the source.
\<close>

definition risk_score :: "observation \<Rightarrow> int" where
  "risk_score data =
    (let s0 = 0;
         s1 = (case data ''oxygen_level'' of
                 None \<Rightarrow> s0
               | Some o2 \<Rightarrow>
                   if o2 < 18 \<or> o2 > 25 then s0 + 3
                   else if o2 < 19.5 \<or> o2 > 23.5 then s0 + 1
                   else s0);
         s2 = (case data ''co2_level'' of
                 None \<Rightarrow> s1
               | Some co2 \<Rightarrow> if co2 > 1.0 then s1 + 3 else s1);
         s3 = (case data ''radiation'' of
                 None \<Rightarrow> s2
               | Some rad \<Rightarrow> if rad > 0.5 then s2 + 3 else s2);
         s4 = (case data ''food_supply_days'' of
                 None \<Rightarrow> s3
               | Some food \<Rightarrow> if food < 7 then s3 + 2 else s3);
         s5 = (case data ''water_supply_days'' of
                 None \<Rightarrow> s4
               | Some water \<Rightarrow> if water < 3 then s4 + 2 else s4)
     in s5)"

definition calculate_risk_level :: "observation \<Rightarrow> string \<Rightarrow> real \<Rightarrow> string" where
  "calculate_risk_level data status confidence =
    (if status = ''dead'' then ''CRITICAL''
     else if risk_score data \<ge> 5 then ''HIGH''
     else if risk_score data \<ge> 2 then ''MEDIUM''
     else ''LOW'')"

subsection \<open>Feedback generator (\<^verbatim>\<open>generate_feedback\<close>, lines 47-131)\<close>

text \<open>
  The messages are Python f-strings. Their three non-ASCII symbols are written as the UTF-8
  bytes of the source file: the warning sign (U+26A0 U+FE0F), the check mark (U+2713) and
  the degree sign (U+00B0). How Python prints a number inside an f-string
  (\<^verbatim>\<open>{o2}\<close>) and a percentage (\<^verbatim>\<open>{confidence:.1%}\<close>) is floating-point formatting of the
  language, not code of the program: the two printers are the parameters \<open>fmt\<close> and
  \<open>pct\<close>.
\<close>

definition warning_sign :: string where
  "warning_sign = [CHR 0xE2, CHR 0x9A, CHR 0xA0, CHR 0xEF, CHR 0xB8, CHR 0x8F]"

definition check_mark :: string where
  "check_mark = [CHR 0xE2, CHR 0x9C, CHR 0x93]"

definition degree_sign :: string where
  "degree_sign = [CHR 0xC2, CHR 0xB0]"

text \<open>Python's \<^verbatim>\<open>key in data\<close> and \<^verbatim>\<open>data.get(key, default)\<close>.\<close>

definition contains :: "observation \<Rightarrow> string \<Rightarrow> bool" where
  "contains data key = (case data key of None \<Rightarrow> False | Some v \<Rightarrow> True)"

definition get_default :: "observation \<Rightarrow> string \<Rightarrow> real \<Rightarrow> real" where
  "get_default data key d = (case data key of None \<Rightarrow> d | Some v \<Rightarrow> v)"

text \<open>
  One definition per analysis block of the source; each returns what the block appends to
  \<^verbatim>\<open>feedback\<close> (nothing when its field is absent).
\<close>

definition oxygen_feedback :: "(real \<Rightarrow> string) \<Rightarrow> observation \<Rightarrow> string list" where
  "oxygen_feedback fmt data =
    (case data ''oxygen_level'' of
       None \<Rightarrow> []
     | Some o2 \<Rightarrow>
         if o2 < 18 then
           [warning_sign @ '' CRITICAL: Oxygen at '' @ fmt o2 @ ''% - Immediate action required!'']
         else if o2 < 19.5 then
           [warning_sign @ '' WARNING: Oxygen at '' @ fmt o2 @ ''% - Below safe minimum'']
         else if o2 > 23.5 then
           [warning_sign @ '' WARNING: Oxygen at '' @ fmt o2 @ ''% - Above safe maximum'']
         else
           [check_mark @ '' Oxygen at '' @ fmt o2 @ ''% - Normal''])"

definition co2_feedback :: "(real \<Rightarrow> string) \<Rightarrow> observation \<Rightarrow> string list" where
  "co2_feedback fmt data =
    (case data ''co2_level'' of
       None \<Rightarrow> []
     | Some co2 \<Rightarrow>
         if co2 > 1.0 then
           [warning_sign @ '' CRITICAL: CO2 at '' @ fmt co2 @ ''% - Scrubbers failing!'']
         else if co2 > 0.5 then
           [warning_sign @ '' WARNING: CO2 at '' @ fmt co2 @ ''% - Monitor closely'']
         else
           [check_mark @ '' CO2 at '' @ fmt co2 @ ''% - Normal''])"

definition temperature_feedback :: "(real \<Rightarrow> string) \<Rightarrow> observation \<Rightarrow> string list" where
  "temperature_feedback fmt data =
    (if contains data ''temperature'' \<or> contains data ''heat'' then
       (let temp = get_default data ''temperature'' (get_default data ''heat'' 0) in
        if temp < 15 then
          [warning_sign @ '' WARNING: Temperature '' @ fmt temp @ degree_sign @ ''C - Too cold'']
        else if temp > 30 then
          [warning_sign @ '' WARNING: Temperature '' @ fmt temp @ degree_sign @ ''C - Too hot'']
        else
          [check_mark @ '' Temperature '' @ fmt temp @ degree_sign @ ''C - Comfortable''])
     else [])"

definition humidity_feedback :: "(real \<Rightarrow> string) \<Rightarrow> observation \<Rightarrow> string list" where
  "humidity_feedback fmt data =
    (case data ''humidity'' of
       None \<Rightarrow> []
     | Some humidity \<Rightarrow>
         if humidity < 30 then
           [warning_sign @ '' WARNING: Humidity '' @ fmt humidity @ ''% - Too dry'']
         else if humidity > 70 then
           [warning_sign @ '' WARNING: Humidity '' @ fmt humidity @ ''% - Too humid'']
         else
           [check_mark @ '' Humidity '' @ fmt humidity @ ''% - Normal''])"

definition radiation_feedback :: "(real \<Rightarrow> string) \<Rightarrow> observation \<Rightarrow> string list" where
  "radiation_feedback fmt data =
    (case data ''radiation'' of
       None \<Rightarrow> []
     | Some rad \<Rightarrow>
         if rad > 0.5 then
           [warning_sign @ '' CRITICAL: Radiation '' @ fmt rad @ '' mSv - Seek shelter!'']
         else if rad > 0.1 then
           [warning_sign @ '' WARNING: Radiation '' @ fmt rad @ '' mSv - Elevated levels'']
         else
           [check_mark @ '' Radiation '' @ fmt rad @ '' mSv - Safe''])"

definition food_feedback :: "(real \<Rightarrow> string) \<Rightarrow> observation \<Rightarrow> string list" where
  "food_feedback fmt data =
    (case data ''food_supply_days'' of
       None \<Rightarrow> []
     | Some food \<Rightarrow>
         if food < 7 then
           [warning_sign @ '' CRITICAL: Food supply '' @ fmt food @ '' days - Emergency!'']
         else if food < 30 then
           [warning_sign @ '' WARNING: Food supply '' @ fmt food @ '' days - Ration required'']
         else
           [check_mark @ '' Food supply '' @ fmt food @ '' days - Adequate''])"

definition water_feedback :: "(real \<Rightarrow> string) \<Rightarrow> observation \<Rightarrow> string list" where
  "water_feedback fmt data =
    (case data ''water_supply_days'' of
       None \<Rightarrow> []
     | Some water \<Rightarrow>
         if water < 3 then
           [warning_sign @ '' CRITICAL: Water supply '' @ fmt water @ '' days - Emergency!'']
         else if water < 14 then
           [warning_sign @ '' WARNING: Water supply '' @ fmt water @ '' days - Ration required'']
         else
           [check_mark @ '' Water supply '' @ fmt water @ '' days - Adequate''])"

text \<open>The overall-status block (lines 123-129): it appends one line on every path.\<close>

definition overall_status :: "(real \<Rightarrow> string) \<Rightarrow> string \<Rightarrow> real \<Rightarrow> string" where
  "overall_status pct status confidence =
    (if status = ''alive'' \<and> confidence > 0.8 then
       check_mark @ '' Overall status: STABLE (confidence: '' @ pct confidence @ '')''
     else if status = ''alive'' then
       warning_sign @ '' Overall status: MARGINAL (confidence: '' @ pct confidence @ '')''
     else
       warning_sign @ '' Overall status: CRITICAL (confidence: '' @ pct confidence @ '')'')"

definition generate_feedback ::
  "(real \<Rightarrow> string) \<Rightarrow> (real \<Rightarrow> string) \<Rightarrow> observation \<Rightarrow> string \<Rightarrow> real \<Rightarrow> string list" where
  "generate_feedback fmt pct data status confidence =
    (let feedback =
           oxygen_feedback fmt data
         @ co2_feedback fmt data
         @ temperature_feedback fmt data
         @ humidity_feedback fmt data
         @ radiation_feedback fmt data
         @ food_feedback fmt data
         @ water_feedback fmt data
         @ [overall_status pct status confidence]
     in if feedback \<noteq> [] then feedback else [''No specific feedback available''])"

text \<open>
  The three overall-status lines, for stating which one is produced, and the predicate
  "none of the recognised fields is present".
\<close>

definition stable_line :: "string \<Rightarrow> string" where
  "stable_line p = check_mark @ '' Overall status: STABLE (confidence: '' @ p @ '')''"

definition marginal_line :: "string \<Rightarrow> string" where
  "marginal_line p = warning_sign @ '' Overall status: MARGINAL (confidence: '' @ p @ '')''"

definition critical_line :: "string \<Rightarrow> string" where
  "critical_line p = warning_sign @ '' Overall status: CRITICAL (confidence: '' @ p @ '')''"

definition recognized_fields :: "string list" where
  "recognized_fields =
    [''oxygen_level'', ''co2_level'', ''temperature'', ''heat'', ''humidity'', ''radiation'',
     ''food_supply_days'', ''water_supply_days'']"

definition no_recognized_field :: "observation \<Rightarrow> bool" where
  "no_recognized_field data = list_all (\<lambda>k. data k = None) recognized_fields"

subsection \<open>The risk table as the specification words it\<close>

text \<open>
  The specification gives six independent rules, each with a field, a condition and a score
  delta, and a rule fires only when its field is present. \<open>spec_rule\<close> is one such rule;
  \<open>spec_score\<close> adds the six rows of the table; \<open>spec_risk_level\<close> is the stated mapping
  from label and score to tier.
\<close>

definition spec_rule :: "observation \<Rightarrow> string \<Rightarrow> (real \<Rightarrow> bool) \<Rightarrow> int \<Rightarrow> int" where
  "spec_rule data field cond delta =
    (case data field of None \<Rightarrow> 0 | Some v \<Rightarrow> if cond v then delta else 0)"

definition spec_score :: "observation \<Rightarrow> int" where
  "spec_score data =
      spec_rule data ''oxygen_level'' (\<lambda>v. v < 18 \<or> v > 25) 3
    + spec_rule data ''oxygen_level'' (\<lambda>v. (18 \<le> v \<and> v < 19.5) \<or> (23.5 < v \<and> v \<le> 25)) 1
    + spec_rule data ''co2_level'' (\<lambda>v. v > 1.0) 3
    + spec_rule data ''radiation'' (\<lambda>v. v > 0.5) 3
    + spec_rule data ''food_supply_days'' (\<lambda>v. v < 7) 2
    + spec_rule data ''water_supply_days'' (\<lambda>v. v < 3) 2"

definition spec_risk_level :: "observation \<Rightarrow> string \<Rightarrow> string" where
  "spec_risk_level data label =
    (if label = ''dead'' then ''CRITICAL''
     else if spec_score data \<ge> 5 then ''HIGH''
     else if 2 \<le> spec_score data \<and> spec_score data < 5 then ''MEDIUM''
     else ''LOW'')"

text \<open>
  A printer that ignores the number and returns a fixed text, for running the feedback
  generator on concrete inputs.
\<close>

definition fixed_printer :: "string \<Rightarrow> real \<Rightarrow> string" where
  "fixed_printer s x = s"

subsection \<open>Exceptions, library interface and program state\<close>

text \<open>
  The endpoints raise FastAPI's \<^verbatim>\<open>HTTPException(status_code, detail)\<close>; every other
  exception that can reach a handler (raised by pandas, scikit-learn, joblib, json or by an
  attribute access on \<^verbatim>\<open>None\<close>) is \<open>PyError\<close>, carrying the text \<^verbatim>\<open>str(e)\<close> gives.
\<close>

datatype exc = HTTPException nat string | PyError string

text \<open>
  A training record is a JSON object: an association list from field names to cells. A cell
  is a number, a string, or a nested JSON object. The label is the cell
  under the key \<^verbatim>\<open>status\<close>.
\<close>

datatype cell = Num real | Str string | Nested

type_synonym row = "(string \<times> cell) list"

text \<open>
  The program calls code that is not its own: Python's formatting and \<^verbatim>\<open>str\<close>, the JSON
  and pandas readers, and three scikit-learn classes. They are the fields of \<open>env\<close>, so that
  every result below holds for whatever these calls compute. The type variables
  \<open>'v\<close>, \<open>'s\<close>, \<open>'m\<close> are the states of a \<^verbatim>\<open>DictVectorizer\<close>, a \<^verbatim>\<open>StandardScaler\<close> and a
  \<^verbatim>\<open>RandomForestClassifier\<close> object. A library call returns \<open>Inl msg\<close> when it raises.
  \<^item> \<open>py_fmt\<close>, \<open>py_pct1\<close>, \<open>py_pct2\<close>: the f-string formats \<^verbatim>\<open>{x}\<close>, \<^verbatim>\<open>{x:.1%}\<close>, \<^verbatim>\<open>{x:.2%}\<close>;
    \<open>py_str_nat\<close>: \<^verbatim>\<open>str\<close> of a count; \<open>py_str_http\<close>: \<^verbatim>\<open>str\<close> of an \<^verbatim>\<open>HTTPException\<close>.
  \<^item> \<open>py_load_records\<close>: lines 205-215 of \<^verbatim>\<open>train\<close> (read the upload, \<^verbatim>\<open>json.loads\<close> or the
    line-by-line fallback, \<^verbatim>\<open>pd.DataFrame\<close>); \<open>py_json_loads\<close>: lines 309-310 of \<^verbatim>\<open>predict\<close>.
  \<^item> \<open>sk_DictVectorizer\<close>, \<open>sk_StandardScaler\<close>, \<open>sk_RandomForestClassifier\<close>: the freshly
    constructed, unfitted objects; a failed fit leaves the object as constructed.
  \<^item> \<open>sk_bool\<close>: the truth value of the classifier object in \<^verbatim>\<open>if model\<close> (line 418).
\<close>

record ('v, 's, 'm) env =
  py_fmt :: "real \<Rightarrow> string"
  py_pct1 :: "real \<Rightarrow> string"
  py_pct2 :: "real \<Rightarrow> string"
  py_str_nat :: "nat \<Rightarrow> string"
  py_str_http :: "nat \<Rightarrow> string \<Rightarrow> string"
  py_load_records :: "string \<Rightarrow> string + row list"
  py_json_loads :: "string \<Rightarrow> string + (string \<times> real) list"
  sk_DictVectorizer :: "'v"
  sk_vec_fit_transform :: "'v \<Rightarrow> row list \<Rightarrow> string + ('v \<times> real list list)"
  sk_vec_transform :: "'v \<Rightarrow> (string \<times> real) list \<Rightarrow> string + real list"
  sk_StandardScaler :: "'s"
  sk_sc_fit_transform :: "'s \<Rightarrow> real list list \<Rightarrow> string + ('s \<times> real list list)"
  sk_sc_transform :: "'s \<Rightarrow> real list \<Rightarrow> string + real list"
  sk_RandomForestClassifier :: "'m"
  sk_fit :: "'m \<Rightarrow> real list list \<Rightarrow> string list \<Rightarrow> string + 'm"
  sk_predict :: "'m \<Rightarrow> real list \<Rightarrow> string + string"
  sk_predict_proba :: "'m \<Rightarrow> real list \<Rightarrow> string + real list"
  sk_score :: "'m \<Rightarrow> real list list \<Rightarrow> string list \<Rightarrow> string + real"
  sk_bool :: "'m \<Rightarrow> string + bool"
  sk_get_params :: "'m \<Rightarrow> (string \<times> string) list"

text \<open>The dict stored in the global \<^verbatim>\<open>training_stats\<close> (lines 258-264).\<close>

record stats =
  samples :: nat
  features :: nat
  stats_feature_names :: "string list"
  alive_count :: nat
  dead_count :: nat

text \<open>
  The state the endpoints share: the five module globals of lines 26-30 (\<open>None\<close> for
  \<^verbatim>\<open>training_stats\<close> is the initial empty dict) and the three files \<^verbatim>\<open>astronaut_model.pkl\<close>,
  \<^verbatim>\<open>vectorizer.pkl\<close>, \<^verbatim>\<open>scaler.pkl\<close> (\<open>None\<close>: the file does not exist). Writing a file
  is taken to succeed; storage faults of the medium are outside the model.
\<close>

record ('v, 's, 'm) world =
  model :: "'m option"
  vectorizer :: "'v option"
  scaler :: "'s option"
  feature_names :: "string list"
  training_stats :: "stats option"
  model_pkl :: "'m option"
  vectorizer_pkl :: "'v option"
  scaler_pkl :: "'s option"

definition str_exc :: "('v, 's, 'm) env \<Rightarrow> exc \<Rightarrow> string" where
  "str_exc E e = (case e of HTTPException code detail \<Rightarrow> py_str_http E code detail | PyError msg \<Rightarrow> msg)"


text \<open>Python's \<^verbatim>\<open>raise HTTPException(status_code=500, detail=f"... {str(e)}")\<close> of the two
  \<^verbatim>\<open>except Exception as e\<close> handlers (lines 277-278 and 342-343, 406-407).\<close>

definition training_failed :: "('v, 's, 'm) env \<Rightarrow> exc \<Rightarrow> exc" where
  "training_failed E e = HTTPException 500 (''Training failed: '' @ str_exc E e)"

definition prediction_failed :: "('v, 's, 'm) env \<Rightarrow> exc \<Rightarrow> exc" where
  "prediction_failed E e = HTTPException 500 (''Prediction failed: '' @ str_exc E e)"

subsection \<open>Training (\<^verbatim>\<open>train\<close>, lines 186-278)\<close>

text \<open>
  pandas builds the columns of \<^verbatim>\<open>pd.DataFrame(data)\<close> from the keys of the records in order
  of first appearance, and fills a key a record lacks with NaN. So \<^verbatim>\<open>"status" not in
  df.columns\<close> says that no record has the key, and \<^verbatim>\<open>df["status"].isin(["alive", "dead"])\<close>
  is false on a record without it.
\<close>

fun first_seen :: "'a list \<Rightarrow> 'a list" where
  "first_seen [] = []"
| "first_seen (x # xs) = x # filter (\<lambda>y. y \<noteq> x) (first_seen xs)"

definition columns :: "row list \<Rightarrow> string list" where
  "columns data = first_seen (concat (map (map fst) data))"

definition valid_status :: "row \<Rightarrow> bool" where
  "valid_status r =
    (case map_of r ''status'' of
       Some (Str s) \<Rightarrow> s = ''alive'' \<or> s = ''dead''
     | Some (Num x) \<Rightarrow> False
     | Some Nested \<Rightarrow> False
     | None \<Rightarrow> False)"

text \<open>The label column \<^verbatim>\<open>y\<close>; after validation every label is a string.\<close>

definition status_value :: "row \<Rightarrow> string" where
  "status_value r = (case map_of r ''status'' of Some (Str s) \<Rightarrow> s | Some (Num x) \<Rightarrow> [] | Some Nested \<Rightarrow> [] | None \<Rightarrow> [])"

text \<open>The two validation checks of lines 217-231 and the exception each raises.\<close>

definition validation_error :: "('v, 's, 'm) env \<Rightarrow> row list \<Rightarrow> exc option" where
  "validation_error E data =
    (if ''status'' \<notin> set (columns data) then
       Some (HTTPException 400
         (''Training data must include 'status' field with values 'alive' or 'dead'' @ [CHR 0x27]))
     else if \<not> list_all valid_status data then
       (let invalid_count = length (filter (\<lambda>r. \<not> valid_status r) data) in
        Some (HTTPException 400
          (''Found '' @ py_str_nat E invalid_count
            @ '' invalid status values. Must be 'alive' or 'dead'' @ [CHR 0x27])))
     else None)"

record train_response =
  message :: string
  response_stats :: stats
  model_accuracy :: string

text \<open>
  \<^verbatim>\<open>train\<close> assigns the globals one statement at a time, inside one \<^verbatim>\<open>try\<close> whose
  handler turns every exception, its own \<^verbatim>\<open>HTTPException\<close>s included, into status 500.
  The worlds \<open>w1\<close> ... \<open>w6\<close> are the states after each assignment; an exception returns the
  state reached so far. The rows handed to the vectorizer are the records without their
  label (NaN padding is part of what the library call receives).
\<close>

definition train ::
  "('v, 's, 'm) env \<Rightarrow> string \<Rightarrow> ('v, 's, 'm) world
    \<Rightarrow> (exc + train_response) \<times> ('v, 's, 'm) world" where
  "train E content w =
    (case py_load_records E content of
       Inl e \<Rightarrow> (Inl (training_failed E (PyError e)), w)
     | Inr data \<Rightarrow>
    (case validation_error E data of
       Some e \<Rightarrow> (Inl (training_failed E e), w)
     | None \<Rightarrow>
    (let X = map (filter (\<lambda>kv. fst kv \<noteq> ''status'')) data;
         y = map status_value data;
         w1 = w\<lparr>feature_names := filter (\<lambda>c. c \<noteq> ''status'') (columns data)\<rparr>;
         w2 = w1\<lparr>vectorizer := Some (sk_DictVectorizer E)\<rparr>
     in
    (case sk_vec_fit_transform E (sk_DictVectorizer E) X of
       Inl e \<Rightarrow> (Inl (training_failed E (PyError e)), w2)
     | Inr (v, X_vect) \<Rightarrow>
    (let w3 = w2\<lparr>vectorizer := Some v, scaler := Some (sk_StandardScaler E)\<rparr> in
    (case sk_sc_fit_transform E (sk_StandardScaler E) X_vect of
       Inl e \<Rightarrow> (Inl (training_failed E (PyError e)), w3)
     | Inr (s, X_scaled) \<Rightarrow>
    (let w4 = w3\<lparr>scaler := Some s, model := Some (sk_RandomForestClassifier E)\<rparr> in
    (case sk_fit E (sk_RandomForestClassifier E) X_scaled y of
       Inl e \<Rightarrow> (Inl (training_failed E (PyError e)), w4)
     | Inr m \<Rightarrow>
    (let st = \<lparr>samples = length data,
               features = length (feature_names w4),
               stats_feature_names = feature_names w4,
               alive_count = length (filter (\<lambda>l. l = ''alive'') y),
               dead_count = length (filter (\<lambda>l. l = ''dead'') y)\<rparr>;
         w5 = w4\<lparr>model := Some m, training_stats := Some st\<rparr>;
         w6 = w5\<lparr>model_pkl := Some m, vectorizer_pkl := Some v, scaler_pkl := Some s\<rparr>
     in
    (case sk_score E m X_scaled y of
       Inl e \<Rightarrow> (Inl (training_failed E (PyError e)), w6)
     | Inr accuracy \<Rightarrow>
        (Inr \<lparr>message = ''Training completed successfully'',
              response_stats = st,
              model_accuracy = py_pct2 E accuracy\<rparr>, w6)))))))))))"

text \<open>
  For stating which part of \<^verbatim>\<open>train\<close> failed: \<open>fit_failure\<close> is the message of the first of
  the three fitting calls (lines 242, 246, 255) that raises on the validated records, and
  \<open>None\<close> when all three succeed. The calls and their arguments are those of \<open>train\<close>.
\<close>

definition fit_failure :: "('v, 's, 'm) env \<Rightarrow> row list \<Rightarrow> string option" where
  "fit_failure E data =
    (let X = map (filter (\<lambda>kv. fst kv \<noteq> ''status'')) data;
         y = map status_value data
     in
    (case sk_vec_fit_transform E (sk_DictVectorizer E) X of
       Inl e \<Rightarrow> Some e
     | Inr (v, X_vect) \<Rightarrow>
    (case sk_sc_fit_transform E (sk_StandardScaler E) X_vect of
       Inl e \<Rightarrow> Some e
     | Inr (s, X_scaled) \<Rightarrow>
    (case sk_fit E (sk_RandomForestClassifier E) X_scaled y of
       Inl e \<Rightarrow> Some e
     | Inr m \<Rightarrow> None))))"

subsection \<open>Prediction (\<^verbatim>\<open>predict\<close>, lines 280-343; \<^verbatim>\<open>predict_json\<close>, lines 345-407)\<close>

text \<open>
  Lines 296-305 (and 362-371): the lazy load. It is outside the \<^verbatim>\<open>try\<close>, so its
  \<^verbatim>\<open>HTTPException(400)\<close> reaches the caller unchanged, and a missing vectorizer or scaler
  file raises \<^verbatim>\<open>FileNotFoundError\<close> after \<^verbatim>\<open>model\<close> has been assigned.
\<close>

definition load_models :: "('v, 's, 'm) world \<Rightarrow> exc option \<times> ('v, 's, 'm) world" where
  "load_models w =
    (case model w of
       Some m \<Rightarrow> (None, w)
     | None \<Rightarrow>
        (case model_pkl w of
           None \<Rightarrow>
             (Some (HTTPException 400 ''Model not trained yet. Please call /train first''), w)
         | Some m \<Rightarrow>
            (let w1 = w\<lparr>model := Some m\<rparr> in
             case vectorizer_pkl w1 of
               None \<Rightarrow> (Some (PyError ''FileNotFoundError''), w1)
             | Some v \<Rightarrow>
                (let w2 = w1\<lparr>vectorizer := Some v\<rparr> in
                 case scaler_pkl w2 of
                   None \<Rightarrow> (Some (PyError ''FileNotFoundError''), w2)
                 | Some s \<Rightarrow> (None, w2\<lparr>scaler := Some s\<rparr>)))))"

text \<open>
  Sequencing of statements that may raise; a method call on a global that is still
  \<^verbatim>\<open>None\<close> raises \<^verbatim>\<open>AttributeError\<close>; \<^verbatim>\<open>proba.max()\<close> and \<^verbatim>\<open>proba[i]\<close> on a numpy array.
\<close>

definition and_then :: "exc + 'a \<Rightarrow> ('a \<Rightarrow> exc + 'b) \<Rightarrow> exc + 'b" where
  "and_then r f = (case r of Inl e \<Rightarrow> Inl e | Inr x \<Rightarrow> f x)"

definition attr_of :: "'a option \<Rightarrow> exc + 'a" where
  "attr_of obj = (case obj of None \<Rightarrow> Inl (PyError ''AttributeError'') | Some x \<Rightarrow> Inr x)"

definition lib :: "string + 'a \<Rightarrow> exc + 'a" where
  "lib r = (case r of Inl msg \<Rightarrow> Inl (PyError msg) | Inr x \<Rightarrow> Inr x)"

definition proba_max :: "real list \<Rightarrow> exc + real" where
  "proba_max proba = (case proba of [] \<Rightarrow> Inl (PyError ''ValueError'') | p # ps \<Rightarrow> Inr (fold max ps p))"

definition item :: "real list \<Rightarrow> nat \<Rightarrow> exc + real" where
  "item proba i = (if i < length proba then Inr (proba ! i) else Inl (PyError ''IndexError''))"

text \<open>
  The entry \<^verbatim>\<open>prediction_probabilities\<close> of the response (lines 335-338 and 399-402).
  \<open>proba\<close> is the row \<^verbatim>\<open>model.predict_proba(X_scaled)[0]\<close>: scikit-learn orders its columns
  as \<^verbatim>\<open>model.classes_\<close>, the sorted labels, so \<open>proba ! 0\<close> is the probability of "alive" and
  \<open>proba ! 1\<close> that of "dead".
\<close>

record prediction_probabilities =
  alive :: real
  dead :: real

definition probabilities :: "string \<Rightarrow> real list \<Rightarrow> exc + prediction_probabilities" where
  "probabilities pred proba =
    and_then (if pred = ''alive'' then item proba 0 else item proba 1) (\<lambda>a.
    and_then (if pred = ''alive'' then item proba 1 else item proba 0) (\<lambda>d.
    Inr \<lparr>alive = a, dead = d\<rparr>))"

record prediction =
  astronomer_status :: string
  confidence :: real
  risk_level :: string
  feedback :: "string list"
  provided_fields :: "string list"
  field_count :: nat
  prediction_probabilities :: prediction_probabilities

text \<open>The body of the \<^verbatim>\<open>try\<close> block of both prediction endpoints, from the parsed
  observation on (lines 312-340 and 374-404).\<close>

definition predict_body ::
  "('v, 's, 'm) env \<Rightarrow> (string \<times> real) list \<Rightarrow> ('v, 's, 'm) world \<Rightarrow> exc + prediction" where
  "predict_body E data w =
    and_then (attr_of (vectorizer w)) (\<lambda>v.
    and_then (lib (sk_vec_transform E v data)) (\<lambda>X_new.
    and_then (attr_of (scaler w)) (\<lambda>s.
    and_then (lib (sk_sc_transform E s X_new)) (\<lambda>X_scaled.
    and_then (attr_of (model w)) (\<lambda>m.
    and_then (lib (sk_predict E m X_scaled)) (\<lambda>pred.
    and_then (lib (sk_predict_proba E m X_scaled)) (\<lambda>proba.
    and_then (proba_max proba) (\<lambda>conf.
    and_then (probabilities pred proba) (\<lambda>pp.
    Inr \<lparr>astronomer_status = pred,
         confidence = conf,
         risk_level = calculate_risk_level (map_of data) pred conf,
         feedback = generate_feedback (py_fmt E) (py_pct1 E) (map_of data) pred conf,
         provided_fields = map fst data,
         field_count = length data,
         prediction_probabilities = pp\<rparr>)))))))))"

text \<open>The handler \<^verbatim>\<open>except Exception as e\<close> of the prediction endpoints.\<close>

definition guarded :: "('v, 's, 'm) env \<Rightarrow> exc + 'a \<Rightarrow> exc + 'a" where
  "guarded E r = (case r of Inl e \<Rightarrow> Inl (prediction_failed E e) | Inr x \<Rightarrow> Inr x)"

definition predict_json ::
  "('v, 's, 'm) env \<Rightarrow> (string \<times> real) list \<Rightarrow> ('v, 's, 'm) world
    \<Rightarrow> (exc + prediction) \<times> ('v, 's, 'm) world" where
  "predict_json E data w =
    (case load_models w of
       (Some e, w') \<Rightarrow> (Inl e, w')
     | (None, w') \<Rightarrow> (guarded E (predict_body E data w'), w'))"

definition predict ::
  "('v, 's, 'm) env \<Rightarrow> string \<Rightarrow> ('v, 's, 'm) world
    \<Rightarrow> (exc + prediction) \<times> ('v, 's, 'm) world" where
  "predict E content w =
    (case load_models w of
       (Some e, w') \<Rightarrow> (Inl e, w')
     | (None, w') \<Rightarrow>
        (guarded E (and_then (lib (py_json_loads E content)) (\<lambda>data. predict_body E data w')), w'))"

subsection \<open>Model information (\<^verbatim>\<open>model_info\<close>, lines 409-420)\<close>

text \<open>
  \<^verbatim>\<open>model_info\<close> reads the globals only: it takes no file and returns no state.
  \<open>No_model\<close> is the response \<^verbatim>\<open>{"message": "No model trained yet"}\<close>.
\<close>

datatype info =
  No_model string
| Model_info string "stats option" "(string \<times> string) list option" "string list"

definition model_info :: "('v, 's, 'm) env \<Rightarrow> ('v, 's, 'm) world \<Rightarrow> exc + info" where
  "model_info E w =
    (case model w of
       None \<Rightarrow> Inr (No_model ''No model trained yet'')
     | Some m \<Rightarrow>
        and_then (lib (sk_bool E m)) (\<lambda>b.
        Inr (Model_info ''RandomForestClassifier'' (training_stats w)
              (if b then Some (sk_get_params E m) else None) (feature_names w))))"


subsection \<open>A small instance of the library interface\<close>

text \<open>
  To run the endpoints on concrete inputs, \<open>stub_env\<close> instantiates the interface with
  object states in \<^typ>\<open>nat\<close> (0: as constructed, 1: fitted). Its vectorizer rejects a
  nested object, as \<^verbatim>\<open>DictVectorizer\<close> does with \<^verbatim>\<open>TypeError\<close>; its classifier votes "dead"
  with the distribution \<open>[0.2, 0.8]\<close> over (alive, dead). The upload readers return the
  records and the observation given as arguments.
\<close>

definition is_nested :: "cell \<Rightarrow> bool" where
  "is_nested c = (case c of Nested \<Rightarrow> True | Num x \<Rightarrow> False | Str s \<Rightarrow> False)"

definition stub_env :: "row list \<Rightarrow> (string \<times> real) list \<Rightarrow> (nat, nat, nat) env" where
  "stub_env records obs =
    \<lparr>py_fmt = fixed_printer ''15'',
     py_pct1 = fixed_printer ''80.0%'',
     py_pct2 = fixed_printer ''100.00%'',
     py_str_nat = (\<lambda>n. ''1''),
     py_str_http = (\<lambda>code detail. ''400: '' @ detail),
     py_load_records = (\<lambda>content. Inr records),
     py_json_loads = (\<lambda>content. Inr obs),
     sk_DictVectorizer = 0,
     sk_vec_fit_transform = (\<lambda>v X.
        if list_ex (list_ex (\<lambda>kv. is_nested (snd kv))) X then Inl ''Unsupported value type''
        else Inr (1, map (\<lambda>r. []) X)),
     sk_vec_transform = (\<lambda>v d. Inr []),
     sk_StandardScaler = 0,
     sk_sc_fit_transform = (\<lambda>s X. Inr (1, X)),
     sk_sc_transform = (\<lambda>s x. Inr x),
     sk_RandomForestClassifier = 0,
     sk_fit = (\<lambda>m X y. Inr 1),
     sk_predict = (\<lambda>m x. Inr ''dead''),
     sk_predict_proba = (\<lambda>m x. Inr [0.2, 0.8]),
     sk_score = (\<lambda>m X y. Inr 1),
     sk_bool = (\<lambda>m. Inr True),
     sk_get_params = (\<lambda>m. [])\<rparr>"

text \<open>
  Three states: a process that has never trained and has no files; a restarted process
  (globals initial, files of an earlier training present); a process that has trained.
\<close>

definition fresh_world :: "(nat, nat, nat) world" where
  "fresh_world =
    \<lparr>model = None, vectorizer = None, scaler = None, feature_names = [],
     training_stats = None, model_pkl = None, vectorizer_pkl = None, scaler_pkl = None\<rparr>"

definition restarted_world :: "(nat, nat, nat) world" where
  "restarted_world = fresh_world\<lparr>model_pkl := Some 1, vectorizer_pkl := Some 1, scaler_pkl := Some 1\<rparr>"

definition trained_world :: "(nat, nat, nat) world" where
  "trained_world =
    \<lparr>model = Some 1, vectorizer = Some 1, scaler = Some 1, feature_names = [''co2_level''],
     training_stats = Some \<lparr>samples = 2, features = 1, stats_feature_names = [''co2_level''],
        alive_count = 1, dead_count = 1\<rparr>,
     model_pkl = Some 1, vectorizer_pkl = Some 1, scaler_pkl = Some 1\<rparr>"

text \<open>Two uploads: one with the label "unknown", one with a nested feature value.\<close>

definition unknown_label_records :: "row list" where
  "unknown_label_records =
    [[(''oxygen_level'', Num 20), (''status'', Str ''alive'')],
     [(''oxygen_level'', Num 15), (''status'', Str ''unknown'')]]"

definition nested_value_records :: "row list" where
  "nested_value_records =
    [[(''oxygen_level'', Num 20), (''status'', Str ''alive'')],
     [(''oxygen_level'', Nested), (''status'', Str ''dead'')]]"

subsection \<open>Feature encoder\<close>

text \<open>
  Modelled from the spec: the fit of the Feature Encoder. The program delegates it to
  \<^verbatim>\<open>DictVectorizer.fit_transform\<close> (line 242), whose code is not part of the sources. The
  specification (4.1): "scans every observation, collects the sorted (or first-seen, but must
  be deterministic) union of field names, and fixes vocabulary order"; first-seen order is
  taken.
\<close>

definition encoder_fit :: "(string \<times> real) list list \<Rightarrow> string list" where
  "encoder_fit observations = first_seen (concat (map (map fst) observations))"

text \<open>
  Modelled from the spec: the transform of the Feature Encoder. The program delegates it to
  \<^verbatim>\<open>DictVectorizer.transform\<close> (lines 313 and 377), whose code is not part of the sources.
  The specification (4.1): "produces a vector of length = |vocabulary|, filling matched fields
  with their numeric value and unmatched vocabulary slots with 0; fields on the observation
  not in the vocabulary are ignored".
\<close>

definition encoder_transform :: "string list \<Rightarrow> observation \<Rightarrow> real list" where
  "encoder_transform vocabulary obs =
     map (\<lambda>field. case obs field of None \<Rightarrow> 0 | Some v \<Rightarrow> v) vocabulary"

subsection \<open>Risk scorer: results\<close>

lemma risk_score_eq_spec_score: "risk_score data = spec_score data"
  unfolding risk_score_def spec_score_def spec_rule_def Let_def
  by (simp split: option.split)

text \<open>
  Claim C1. For every observation and predicted label, the risk level returned by
  \<open>calculate_risk_level\<close> is the one the specification's table and mapping give: CRITICAL
  when the label is "dead", whatever the score; otherwise HIGH for a score of at least 5,
  MEDIUM for a score in [2,5), LOW below 2, where the score accumulated by the code is the
  sum of the six per-field rules, each firing only when its field is present.
\<close>

theorem calculate_risk_level_refines_spec:
  "calculate_risk_level data status conf = spec_risk_level data status
   \<and> risk_score data = spec_score data"
  unfolding calculate_risk_level_def spec_risk_level_def
  by (simp add: risk_score_eq_spec_score)

text \<open>
  Claim C2, as stated: the observation \<open>{oxygen_level: 15, co2_level: 0.3}\<close> with label
  "alive" scores 3 and is rated HIGH. The code scores it 3 and rates it MEDIUM, since HIGH
  needs a score of at least 5.
\<close>

theorem risk_example_not_high:
  "calculate_risk_level [''oxygen_level'' \<mapsto> 15, ''co2_level'' \<mapsto> 0.3] ''alive'' 0.9 \<noteq> ''HIGH''"
  by (simp add: calculate_risk_level_def risk_score_def)

text \<open>
  Claim C2, amended: that observation scores 3; with label "alive" the risk level is
  MEDIUM, and with label "dead" it is CRITICAL, for every conf.
\<close>

theorem risk_example_medium:
  "risk_score [''oxygen_level'' \<mapsto> 15, ''co2_level'' \<mapsto> 0.3] = 3
   \<and> calculate_risk_level [''oxygen_level'' \<mapsto> 15, ''co2_level'' \<mapsto> 0.3] ''alive'' conf
       = ''MEDIUM''
   \<and> calculate_risk_level [''oxygen_level'' \<mapsto> 15, ''co2_level'' \<mapsto> 0.3] ''dead'' conf
       = ''CRITICAL''"
  by (simp add: calculate_risk_level_def risk_score_def)

subsection \<open>Feedback generator: results\<close>

lemma lines_distinct:
  "stable_line p \<noteq> marginal_line q"
  "stable_line p \<noteq> critical_line q"
  "marginal_line p \<noteq> critical_line q"
  by (simp_all add: stable_line_def marginal_line_def critical_line_def check_mark_def
      warning_sign_def)

lemma last_generate_feedback:
  "last (generate_feedback fmt pct data status conf) = overall_status pct status conf"
  by (simp add: generate_feedback_def Let_def)

lemma overall_status_cases:
  "overall_status pct status c =
    (if status = ''alive'' \<and> c > 0.8 then stable_line (pct c)
     else if status = ''alive'' then marginal_line (pct c)
     else critical_line (pct c))"
  by (simp add: overall_status_def stable_line_def marginal_line_def critical_line_def)

text \<open>
  Claim C6. The overall-status line is the last entry of the feedback. It is the STABLE
  line exactly when the label is "alive" and the conf exceeds 0.8, the MARGINAL line
  exactly when the label is "alive" and the conf is at most 0.8, and the CRITICAL
  line whenever the label is "dead", whatever the conf.
\<close>

theorem overall_status_line:
  "(last (generate_feedback fmt pct data status conf) = stable_line (pct conf))
      = (status = ''alive'' \<and> conf > 0.8)
   \<and> (last (generate_feedback fmt pct data status conf) = marginal_line (pct conf))
      = (status = ''alive'' \<and> conf \<le> 0.8)
   \<and> (status = ''dead'' \<longrightarrow>
        last (generate_feedback fmt pct data status conf) = critical_line (pct conf))"
  unfolding last_generate_feedback overall_status_cases
  using lines_distinct[of "pct conf" "pct conf"]
  by auto

theorem overall_status_line_witness:
  "''dead'' = ''dead''
   \<and> last (generate_feedback (fixed_printer ''17'') (fixed_printer ''95.0%'')
        [''oxygen_level'' \<mapsto> 17] ''dead'' 0.95) = critical_line ''95.0%''
   \<and> last (generate_feedback (fixed_printer ''17'') (fixed_printer ''95.0%'')
        [''oxygen_level'' \<mapsto> 17] ''dead'' 0.95) \<noteq> stable_line ''95.0%''"
  using overall_status_line [of "fixed_printer ''17''" "fixed_printer ''95.0%''"
      "[''oxygen_level'' \<mapsto> 17]" "''dead''" "0.95"]
  by (auto simp add: fixed_printer_def)

lemma no_field_blocks:
  assumes "no_recognized_field data"
  shows "oxygen_feedback fmt data = []"
    and "co2_feedback fmt data = []"
    and "temperature_feedback fmt data = []"
    and "humidity_feedback fmt data = []"
    and "radiation_feedback fmt data = []"
    and "food_feedback fmt data = []"
    and "water_feedback fmt data = []"
  using assms
  by (simp_all add: no_recognized_field_def recognized_fields_def oxygen_feedback_def
      co2_feedback_def temperature_feedback_def humidity_feedback_def radiation_feedback_def
      food_feedback_def water_feedback_def contains_def)

lemma feedback_without_fields:
  "no_recognized_field data \<Longrightarrow>
     generate_feedback fmt pct data status conf = [overall_status pct status conf]"
  by (simp add: generate_feedback_def Let_def no_field_blocks)

lemma overall_status_not_placeholder:
  "overall_status pct status conf \<noteq> ''No specific feedback available''"
  by (simp add: overall_status_def check_mark_def warning_sign_def)

text \<open>
  Claim C8 fails on the code. Line 131 returns the single placeholder message
  "No specific feedback available" when \<^verbatim>\<open>feedback\<close> is empty, which is what the claim
  states for an observation without recognised fields; but lines 123-129 have appended the
  overall-status line on every path before that test, so the branch is never taken. On the
  empty observation with label "alive" and confidence 0.9 the code returns the STABLE line
  alone; for no input at all does it return the placeholder. The second half of the claim
  holds: the list is never empty.
\<close>

theorem feedback_placeholder_unreachable:
  "generate_feedback (fixed_printer ''0'') (fixed_printer ''90.0%'') Map.empty ''alive'' 0.9
     = [stable_line ''90.0%'']
   \<and> generate_feedback fmt pct data status conf \<noteq> [''No specific feedback available'']
   \<and> generate_feedback fmt pct data status conf \<noteq> []"
proof -
  have "no_recognized_field Map.empty"
    by (simp add: no_recognized_field_def recognized_fields_def)
  then have a: "generate_feedback (fixed_printer ''0'') (fixed_printer ''90.0%'') Map.empty
      ''alive'' 0.9 = [stable_line ''90.0%'']"
    by (simp add: feedback_without_fields overall_status_cases fixed_printer_def)
  have "last (generate_feedback fmt pct data status conf)
      \<noteq> last [''No specific feedback available'']"
    by (simp add: last_generate_feedback overall_status_not_placeholder)
  then have b: "generate_feedback fmt pct data status conf \<noteq> [''No specific feedback available'']"
    by metis
  have c: "generate_feedback fmt pct data status conf \<noteq> []"
    by (simp add: generate_feedback_def Let_def)
  from a b c show ?thesis by simp
qed

subsection \<open>Prediction and model information: results\<close>

lemma load_models_resident: "model w = Some m \<Longrightarrow> load_models w = (None, w)"
  by (simp add: load_models_def)

lemma load_models_from_disk:
  "model w = None \<Longrightarrow> model_pkl w = Some m \<Longrightarrow> vectorizer_pkl w = Some v \<Longrightarrow>
   scaler_pkl w = Some s \<Longrightarrow>
   load_models w = (None, w\<lparr>model := Some m, vectorizer := Some v, scaler := Some s\<rparr>)"
  by (simp add: load_models_def Let_def)

lemma predict_body_ignores_stats:
  "predict_body E data (w\<lparr>feature_names := fs, training_stats := ts\<rparr>) = predict_body E data w"
  by (simp add: predict_body_def)

lemma stub_prediction:
  "predict_body (stub_env rs obs) [(''oxygen_level'', 15)] trained_world =
     Inr \<lparr>astronomer_status = ''dead'', confidence = 0.8, risk_level = ''CRITICAL'',
          feedback = [warning_sign @ '' CRITICAL: Oxygen at 15% - Immediate action required!'',
                      critical_line ''80.0%''],
          provided_fields = [''oxygen_level''], field_count = 1,
          prediction_probabilities = \<lparr>alive = 0.8, dead = 0.2\<rparr>\<rparr>"
  by (simp add: predict_body_def stub_env_def trained_world_def and_then_def attr_of_def lib_def
      proba_max_def probabilities_def item_def calculate_risk_level_def generate_feedback_def
      oxygen_feedback_def co2_feedback_def temperature_feedback_def humidity_feedback_def
      radiation_feedback_def food_feedback_def water_feedback_def overall_status_def
      critical_line_def fixed_printer_def contains_def)

lemma restarted_loaded:
  "restarted_world\<lparr>model := Some 1, vectorizer := Some 1, scaler := Some 1\<rparr>
     = trained_world\<lparr>feature_names := [], training_stats := None\<rparr>"
  by (simp add: restarted_world_def fresh_world_def trained_world_def)

text \<open>
  Claim C4 fails on the code. The response labels the two entries of \<open>proba\<close> by the
  prediction instead of by their class: for the prediction "alive" it reports
  \<open>(proba ! 0, proba ! 1)\<close> as (alive, dead), for any other prediction \<open>(proba ! 1, proba ! 0)\<close>.
  Since \<open>proba ! 0\<close> is the share of "alive" whatever the prediction, a "dead" prediction
  with distribution \<open>[0.2, 0.8]\<close> is reported as alive 0.8, dead 0.2, while the confidence is
  0.8: the entry of the predicted label is not the confidence, and the entry "alive" is not
  the share voting "alive". No order of the two classes makes both branches right, since the
  same row is read in opposite orders.
\<close>

theorem swapped_probabilities:
  "probabilities ''alive'' [p0, p1] = Inr \<lparr>alive = p0, dead = p1\<rparr>
   \<and> probabilities ''dead'' [p0, p1] = Inr \<lparr>alive = p1, dead = p0\<rparr>
   \<and> proba_max [0.2, 0.8] = Inr 0.8
   \<and> fst (predict_json (stub_env [] []) [(''oxygen_level'', 15)] trained_world)
       = Inr \<lparr>astronomer_status = ''dead'', confidence = 0.8, risk_level = ''CRITICAL'',
              feedback = [warning_sign @ '' CRITICAL: Oxygen at 15% - Immediate action required!'',
                          critical_line ''80.0%''],
              provided_fields = [''oxygen_level''], field_count = 1,
              prediction_probabilities = \<lparr>alive = 0.8, dead = 0.2\<rparr>\<rparr>"
proof -
  have "model trained_world = Some 1"
    by (simp add: trained_world_def)
  then have "load_models trained_world = (None, trained_world)"
    by (rule load_models_resident)
  then have "fst (predict_json (stub_env [] []) [(''oxygen_level'', 15)] trained_world)
       = Inr \<lparr>astronomer_status = ''dead'', confidence = 0.8, risk_level = ''CRITICAL'',
              feedback = [warning_sign @ '' CRITICAL: Oxygen at 15% - Immediate action required!'',
                          critical_line ''80.0%''],
              provided_fields = [''oxygen_level''], field_count = 1,
              prediction_probabilities = \<lparr>alive = 0.8, dead = 0.2\<rparr>\<rparr>"
    by (simp add: predict_json_def stub_prediction guarded_def)
  then show ?thesis
    by (simp add: probabilities_def proba_max_def item_def and_then_def)
qed

text \<open>
  Claim C9. When no model is resident in memory and the model file does not exist (in
  particular when nothing has been trained in this process and no snapshot is on disk),
  both prediction endpoints fail with the "Model not trained yet" error, status 400, for
  every input, and leave the state as it was.
\<close>

theorem predict_not_trained:
  "model w = None \<Longrightarrow> model_pkl w = None \<Longrightarrow>
     predict E content w
       = (Inl (HTTPException 400 ''Model not trained yet. Please call /train first''), w)
     \<and> predict_json E data w
       = (Inl (HTTPException 400 ''Model not trained yet. Please call /train first''), w)"
  by (simp add: predict_def predict_json_def load_models_def)

theorem predict_not_trained_witness:
  "model fresh_world = None \<and> model_pkl fresh_world = None
   \<and> predict (stub_env [] [(''oxygen_level'', 15)]) ''{}'' fresh_world
       = (Inl (HTTPException 400 ''Model not trained yet. Please call /train first''), fresh_world)"
  using predict_not_trained [of fresh_world "stub_env [] [(''oxygen_level'', 15)]" "''{}''" "[]"]
  by (simp add: fresh_world_def)

text \<open>
  Claim C10. With no model resident in memory, \<open>model_info\<close> answers "No model trained yet"
  even when the three snapshot files exist: it never reads them. On the same state a
  prediction loads the three files into memory and then behaves exactly as a prediction
  with the snapshot resident, so it succeeds whenever that one does.
\<close>

theorem model_info_never_loads:
  "model w = None \<Longrightarrow> model_pkl w = Some m \<Longrightarrow> vectorizer_pkl w = Some v \<Longrightarrow>
   scaler_pkl w = Some s \<Longrightarrow>
     model_info E w = Inr (No_model ''No model trained yet'')
   \<and> predict_json E data w
       = (guarded E (predict_body E data (w\<lparr>model := Some m, vectorizer := Some v, scaler := Some s\<rparr>)),
          w\<lparr>model := Some m, vectorizer := Some v, scaler := Some s\<rparr>)
   \<and> predict E content w
       = (guarded E (and_then (lib (py_json_loads E content))
            (\<lambda>data. predict_body E data (w\<lparr>model := Some m, vectorizer := Some v, scaler := Some s\<rparr>))),
          w\<lparr>model := Some m, vectorizer := Some v, scaler := Some s\<rparr>)
   \<and> (\<forall>r. predict_body E data (w\<lparr>model := Some m, vectorizer := Some v, scaler := Some s\<rparr>) = Inr r
         \<longrightarrow> fst (predict_json E data w) = Inr r)"
  by (simp add: model_info_def predict_json_def predict_def load_models_from_disk guarded_def)

theorem model_info_never_loads_witness:
  "model restarted_world = None \<and> model_pkl restarted_world = Some 1
   \<and> vectorizer_pkl restarted_world = Some 1 \<and> scaler_pkl restarted_world = Some 1
   \<and> model_info (stub_env [] []) restarted_world = Inr (No_model ''No model trained yet'')
   \<and> isl (fst (predict_json (stub_env [] []) [(''oxygen_level'', 15)] restarted_world)) = False
   \<and> model (snd (predict_json (stub_env [] []) [(''oxygen_level'', 15)] restarted_world)) = Some 1"
proof -
  have h: "model restarted_world = None" "model_pkl restarted_world = Some 1"
    "vectorizer_pkl restarted_world = Some 1" "scaler_pkl restarted_world = Some 1"
    by (simp_all add: restarted_world_def fresh_world_def)
  have b: "\<not> isl (guarded (stub_env [] []) (predict_body (stub_env [] []) [(''oxygen_level'', 15)]
      (restarted_world\<lparr>model := Some 1, vectorizer := Some 1, scaler := Some 1\<rparr>)))"
    by (simp only: restarted_loaded predict_body_ignores_stats stub_prediction guarded_def)
      simp
  show ?thesis
    using model_info_never_loads [OF h, of "stub_env [] []" "[(''oxygen_level'', 15)]" "''{}''"]
      h b
    by simp
qed

subsection \<open>Training: results\<close>

lemma invalid_record_validation:
  assumes "r \<in> set data"
    and "map_of r ''status'' \<noteq> Some (Str ''alive'')"
    and "map_of r ''status'' \<noteq> Some (Str ''dead'')"
  shows "\<exists>d. validation_error E data = Some (HTTPException 400 d)"
proof -
  have "\<not> valid_status r"
    using assms(2,3) by (auto simp: valid_status_def split: option.splits cell.splits)
  then have "\<not> list_all valid_status data"
    using assms(1) by (auto simp: list_all_iff)
  then show ?thesis
    by (simp add: validation_error_def Let_def)
qed

text \<open>
  Claim C5, as stated: any training failure leaves the committed state unchanged. A
  failure after validation does not: the globals are assigned one by one before the
  library calls that may raise. With a committed model in memory, an upload whose second
  record has a nested feature value passes validation, the vectorizer's fit raises, and
  the call fails with \<^verbatim>\<open>vectorizer\<close> now the unfitted new object and \<^verbatim>\<open>feature_names\<close>
  replaced.
\<close>

theorem failed_training_mutates_state:
  "isl (fst (train (stub_env nested_value_records []) ''upload'' trained_world))
   \<and> vectorizer (snd (train (stub_env nested_value_records []) ''upload'' trained_world)) = Some 0
   \<and> feature_names (snd (train (stub_env nested_value_records []) ''upload'' trained_world))
       = [''oxygen_level'']
   \<and> snd (train (stub_env nested_value_records []) ''upload'' trained_world) \<noteq> trained_world"
  by (simp add: train_def stub_env_def nested_value_records_def validation_error_def columns_def
      valid_status_def is_nested_def trained_world_def Let_def)

lemma fit_failure_keeps_files:
  assumes "py_load_records E content = Inr data"
    and "validation_error E data = None"
    and "fit_failure E data = Some msg"
  shows "isl (fst (train E content w))"
    and "model_pkl (snd (train E content w)) = model_pkl w"
    and "vectorizer_pkl (snd (train E content w)) = vectorizer_pkl w"
    and "scaler_pkl (snd (train E content w)) = scaler_pkl w"
  using assms
  by (auto simp: train_def fit_failure_def Let_def split: sum.splits prod.splits)

text \<open>
  Claim C5, amended: if any record of the upload lacks the label field or has a label
  other than "alive" and "dead", the whole training call fails, and the state, in-memory
  encoder, normalizer and classifier and the three files alike, is exactly what it was
  before the call, so no partial model is committed. When validation passes and one of the
  three fitting steps raises, the call fails and the three files are what they were
  before the call.
\<close>

theorem invalid_label_training_fails:
  "py_load_records E content = Inr data \<Longrightarrow>
     ((\<exists>r\<in>set data. map_of r ''status'' \<noteq> Some (Str ''alive'')
                   \<and> map_of r ''status'' \<noteq> Some (Str ''dead''))
        \<longrightarrow> isl (fst (train E content w)) \<and> snd (train E content w) = w)
   \<and> (validation_error E data = None \<and> fit_failure E data = Some msg
        \<longrightarrow> isl (fst (train E content w))
            \<and> model_pkl (snd (train E content w)) = model_pkl w
            \<and> vectorizer_pkl (snd (train E content w)) = vectorizer_pkl w
            \<and> scaler_pkl (snd (train E content w)) = scaler_pkl w)"
proof -
  assume l: "py_load_records E content = Inr data"
  have "isl (fst (train E content w)) \<and> snd (train E content w) = w"
    if "\<exists>r\<in>set data. map_of r ''status'' \<noteq> Some (Str ''alive'')
                   \<and> map_of r ''status'' \<noteq> Some (Str ''dead'')"
  proof -
    from that obtain d where "validation_error E data = Some (HTTPException 400 d)"
      using invalid_record_validation by blast
    with l show ?thesis
      by (simp add: train_def)
  qed
  then show ?thesis
    using fit_failure_keeps_files [OF l] by blast
qed

theorem invalid_label_training_fails_witness:
  "py_load_records (stub_env unknown_label_records []) ''upload'' = Inr unknown_label_records
   \<and> map_of (unknown_label_records ! 1) ''status'' = Some (Str ''unknown'')
   \<and> isl (fst (train (stub_env unknown_label_records []) ''upload'' trained_world))
   \<and> snd (train (stub_env unknown_label_records []) ''upload'' trained_world) = trained_world
   \<and> py_load_records (stub_env nested_value_records []) ''upload'' = Inr nested_value_records
   \<and> validation_error (stub_env nested_value_records []) nested_value_records = None
   \<and> fit_failure (stub_env nested_value_records []) nested_value_records
       = Some ''Unsupported value type''
   \<and> isl (fst (train (stub_env nested_value_records []) ''upload'' trained_world))
   \<and> model_pkl (snd (train (stub_env nested_value_records []) ''upload'' trained_world)) = Some 1
   \<and> vectorizer_pkl (snd (train (stub_env nested_value_records []) ''upload'' trained_world))
       = Some 1
   \<and> scaler_pkl (snd (train (stub_env nested_value_records []) ''upload'' trained_world)) = Some 1"
proof -
  have l: "py_load_records (stub_env unknown_label_records []) ''upload''
      = Inr unknown_label_records"
    by (simp add: stub_env_def)
  have m: "map_of (unknown_label_records ! 1) ''status'' = Some (Str ''unknown'')"
    by (simp add: unknown_label_records_def)
  have b: "\<exists>r\<in>set unknown_label_records. map_of r ''status'' \<noteq> Some (Str ''alive'')
                \<and> map_of r ''status'' \<noteq> Some (Str ''dead'')"
    by (simp add: unknown_label_records_def)
  have l': "py_load_records (stub_env nested_value_records []) ''upload''
      = Inr nested_value_records"
    by (simp add: stub_env_def)
  have v: "validation_error (stub_env nested_value_records []) nested_value_records = None"
    by (simp add: validation_error_def columns_def valid_status_def nested_value_records_def)
  have f: "fit_failure (stub_env nested_value_records []) nested_value_records
       = Some ''Unsupported value type''"
    by (simp add: fit_failure_def stub_env_def nested_value_records_def is_nested_def)
  have p: "model_pkl trained_world = Some 1" "vectorizer_pkl trained_world = Some 1"
    "scaler_pkl trained_world = Some 1"
    by (simp_all add: trained_world_def)
  show ?thesis
    using invalid_label_training_fails [OF l, of trained_world "''x''"]
      invalid_label_training_fails [OF l', of trained_world "''Unsupported value type''"]
      l m b l' v f p
    by simp
qed

subsection \<open>Feature encoder: results\<close>

lemma first_seen_set: "set (first_seen xs) = set xs"
  by (induction xs) auto

lemma first_seen_distinct: "distinct (first_seen xs)"
  by (induction xs) (auto simp: first_seen_set)

text \<open>
  Claim C7. For every vocabulary and every observation the encoded vector has exactly as
  many entries as the vocabulary; a vocabulary field absent from the observation is encoded
  as 0 and a present one as its value, without error; and a field of the observation that is
  not in the vocabulary changes nothing: it is dropped, and the vector is not widened.
\<close>

theorem encoder_fixed_width:
  "length (encoder_transform vocabulary obs) = length vocabulary
   \<and> (\<forall>i < length vocabulary. obs (vocabulary ! i) = None \<longrightarrow>
         encoder_transform vocabulary obs ! i = 0)
   \<and> (\<forall>i < length vocabulary. \<forall>v. obs (vocabulary ! i) = Some v \<longrightarrow>
         encoder_transform vocabulary obs ! i = v)
   \<and> (\<forall>field v. field \<notin> set vocabulary \<longrightarrow>
         encoder_transform vocabulary (obs(field \<mapsto> v)) = encoder_transform vocabulary obs)"
  by (auto simp: encoder_transform_def)

theorem encoder_fixed_width_witness:
  "encoder_fit [[(''oxygen_level'', 20), (''co2_level'', 0.4)], [(''co2_level'', 2)]]
     = [''oxygen_level'', ''co2_level'']
   \<and> ''humidity'' \<notin> set [''oxygen_level'', ''co2_level'']
   \<and> encoder_transform [''oxygen_level'', ''co2_level'']
        [''co2_level'' \<mapsto> 0.3, ''humidity'' \<mapsto> 50] = [0, 0.3]"
proof -
  have f: "encoder_fit [[(''oxygen_level'', 20), (''co2_level'', 0.4)], [(''co2_level'', 2)]]
     = [''oxygen_level'', ''co2_level'']"
    by (simp add: encoder_fit_def)
  have n: "''humidity'' \<notin> set [''oxygen_level'', ''co2_level'']"
    by simp
  have "encoder_transform [''oxygen_level'', ''co2_level'']
          [''co2_level'' \<mapsto> 0.3, ''humidity'' \<mapsto> 50]
       = encoder_transform [''oxygen_level'', ''co2_level''] [''co2_level'' \<mapsto> 0.3]"
    using encoder_fixed_width [of "[''oxygen_level'', ''co2_level'']" "[''co2_level'' \<mapsto> 0.3]"] n
    by blast
  then show ?thesis
    using f n by (simp add: encoder_transform_def)
qed

end
